theory Spec2Isabelle
  imports Main "HOL-Library.AList" "HOL-Library.Sublist"
begin

section \<open>Python values used by the program\<close>

text \<open>
  A Python \<open>str\<close> is a \<^typ>\<open>string\<close>: a list of characters, each standing for one code
  point. A \<^typ>\<open>char\<close> has eight bits, so the texts of the model are the texts over the
  code points below 256 (Latin-1); what is proved here is proved of these texts. The
  box-drawing characters and the check mark of the report have no \<^typ>\<open>char\<close>; they are
  written as their UTF-8 bytes, and the program never measures or splits a string that
  holds one. \<open>bytes\<close> are lists of numbers. An exception is a value that carries its class
  and its message; every class below is a subclass of Python's \<open>Exception\<close>, which is what
  the \<open>except Exception\<close> handlers of the program catch. \<open>sys.exit\<close> is not an exception
  of that kind and is kept apart (\<open>SystemExit\<close> below).
\<close>

type_synonym bytes = "nat list"

datatype exn =
    FileNotFoundError string
  | JSONDecodeError string
  | AttributeError string
  | TypeError string
  | IndexError string
  | OtherException string

fun exn_str :: "exn \<Rightarrow> string" where
  "exn_str (FileNotFoundError m) = m"
| "exn_str (JSONDecodeError m) = m"
| "exn_str (AttributeError m) = m"
| "exn_str (TypeError m) = m"
| "exn_str (IndexError m) = m"
| "exn_str (OtherException m) = m"

definition nl :: string where
  "nl = [CHR 0x0A]"

text \<open>
  \<open>str.isspace\<close> on one character. Of the code points below 256 Python takes these
  twelve for white space: the controls 9 to 13 and 28 to 31, the blank, the next line
  (133) and the no-break space (160). The white space that Python knows above 255
  (U+1680, U+2000 to U+200A, U+2028, U+2029, U+202F, U+205F and U+3000) is not a character
  of the model. \<open>str.strip\<close> removes the white space at both ends.
\<close>

definition py_isspace :: "char \<Rightarrow> bool" where
  "py_isspace c = (of_char c \<in> {9, 10, 11, 12, 13, 28, 29, 30, 31, 32, 133, 160 :: nat})"

definition strip :: "string \<Rightarrow> string" where
  "strip s = rev (dropWhile py_isspace (rev (dropWhile py_isspace s)))"

text \<open>\<open>sep.join(xs)\<close>.\<close>

fun join :: "string \<Rightarrow> string list \<Rightarrow> string" where
  "join sep [] = []"
| "join sep [x] = x"
| "join sep (x # y # ys) = x @ sep @ join sep (y # ys)"

section \<open>The document, as the parsing library hands it over\<close>

datatype mso_shape_type = AUTO_SHAPE | PICTURE | PLACEHOLDER | TEXT_BOX | GROUP | OTHER_SHAPE

record shape =
  has_text_frame :: bool
  shape_text :: string
  shape_type :: mso_shape_type
  image_blob :: bytes

record slide =
  shapes :: "shape list"
  has_notes_slide :: bool
  notes_text :: string

type_synonym presentation = "slide list"

section \<open>Extraction\<close>

text \<open>
  \<open>ocr_image\<close>: the two library calls (\<open>Image.open\<close> on the bytes, then
  \<open>pytesseract.image_to_string\<close>) are parameters; each returns its value or raises.
\<close>

definition ocr_image ::
  "(bytes \<Rightarrow> exn + 'img) \<Rightarrow> ('img \<Rightarrow> exn + string) \<Rightarrow> bytes \<Rightarrow> string" where
  "ocr_image image_open image_to_string image_bytes =
     (case image_open image_bytes of
        Inl e \<Rightarrow> []
      | Inr img \<Rightarrow>
          (case image_to_string img of
             Inl e \<Rightarrow> []
           | Inr t \<Rightarrow> t))"

text \<open>The body of the loop over \<open>slide.shapes\<close>: what one shape appends to \<open>texts\<close>.\<close>

definition shape_step ::
  "(bytes \<Rightarrow> exn + 'img) \<Rightarrow> ('img \<Rightarrow> exn + string) \<Rightarrow> string list \<Rightarrow> shape \<Rightarrow> string list"
  where
  "shape_step image_open image_to_string texts sh =
     (let texts1 =
            (if has_text_frame sh \<and> strip (shape_text sh) \<noteq> []
             then texts @ [shape_text sh] else texts)
      in if shape_type sh = PICTURE
         then (let ocr_text = ocr_image image_open image_to_string (image_blob sh)
               in if strip ocr_text \<noteq> []
                  then texts1 @ [''[Text from Image]:'' @ nl @ ocr_text]
                  else texts1)
         else texts1)"

text \<open>The body of the loop over \<open>prs.slides\<close>: the text block of one slide.\<close>

definition slide_block ::
  "(bytes \<Rightarrow> exn + 'img) \<Rightarrow> ('img \<Rightarrow> exn + string) \<Rightarrow> slide \<Rightarrow> string" where
  "slide_block image_open image_to_string sl =
     (let texts = foldl (shape_step image_open image_to_string) [] (shapes sl);
          texts' =
            (if has_notes_slide sl \<and> strip (notes_text sl) \<noteq> []
             then texts @ [''[Speaker Notes]:'' @ nl @ notes_text sl] else texts)
      in join (nl @ ''---'' @ nl) texts')"

text \<open>
  The dictionary \<open>slide_content\<close> is an association list in insertion order;
  \<open>slide_content[k] = v\<close> is \<^const>\<open>AList.update\<close>, which replaces the value of a key
  that is present and appends a new key at the end, as a Python \<open>dict\<close> does.
\<close>

type_synonym corpus = "(nat \<times> string) list"

fun slides_loop ::
  "(bytes \<Rightarrow> exn + 'img) \<Rightarrow> ('img \<Rightarrow> exn + string) \<Rightarrow> nat \<Rightarrow> slide list \<Rightarrow> corpus \<Rightarrow> corpus"
  where
  "slides_loop image_open image_to_string i [] slide_content = slide_content"
| "slides_loop image_open image_to_string i (sl # rest) slide_content =
     (let slide_number = i + 1
      in slides_loop image_open image_to_string (i + 1) rest
           (AList.update slide_number (slide_block image_open image_to_string sl)
              slide_content))"

text \<open>The condition of the source under which a shape contributes its text frame.\<close>

definition text_segment :: "shape \<Rightarrow> bool" where
  "text_segment sh = (has_text_frame sh \<and> strip (shape_text sh) \<noteq> [])"

text \<open>
  A slide without content, said without the program's own tests. A text is blank when
  every character of it is white space. A picture yields no text when decoding raises,
  recognition raises, or the recognised text is blank. A shape is bare when its text
  frame, if it has one, is blank, and, if it is a picture, it yields no text; a slide is
  bare when all its shapes are and its notes, if it has any, are blank.
\<close>

definition blank :: "string \<Rightarrow> bool" where
  "blank s = list_all py_isspace s"

definition no_picture_text ::
  "(bytes \<Rightarrow> exn + 'img) \<Rightarrow> ('img \<Rightarrow> exn + string) \<Rightarrow> bytes \<Rightarrow> bool" where
  "no_picture_text image_open image_to_string image_bytes =
     (case image_open image_bytes of
        Inl e \<Rightarrow> True
      | Inr img \<Rightarrow> (case image_to_string img of Inl e \<Rightarrow> True | Inr t \<Rightarrow> blank t))"

definition bare_shape ::
  "(bytes \<Rightarrow> exn + 'img) \<Rightarrow> ('img \<Rightarrow> exn + string) \<Rightarrow> shape \<Rightarrow> bool" where
  "bare_shape image_open image_to_string sh =
     ((has_text_frame sh \<longrightarrow> blank (shape_text sh))
      \<and> (shape_type sh = PICTURE \<longrightarrow>
           no_picture_text image_open image_to_string (image_blob sh)))"

definition bare_slide ::
  "(bytes \<Rightarrow> exn + 'img) \<Rightarrow> ('img \<Rightarrow> exn + string) \<Rightarrow> slide \<Rightarrow> bool" where
  "bare_slide image_open image_to_string sl =
     (list_all (bare_shape image_open image_to_string) (shapes sl)
      \<and> (has_notes_slide sl \<longrightarrow> blank (notes_text sl)))"

text \<open>Decoding or recognition raises on these bytes.\<close>

definition ocr_raises ::
  "(bytes \<Rightarrow> exn + 'img) \<Rightarrow> ('img \<Rightarrow> exn + string) \<Rightarrow> bytes \<Rightarrow> bool" where
  "ocr_raises image_open image_to_string image_bytes =
     (case image_open image_bytes of
        Inl e \<Rightarrow> True
      | Inr img \<Rightarrow> (case image_to_string img of Inl e \<Rightarrow> True | Inr t \<Rightarrow> False))"

text \<open>
  \<open>extract_content_from_pptx\<close>. \<open>os.path.exists\<close> and \<open>Presentation\<close> (the parsing
  library, which may raise) are parameters. The function prints, and ends in one of three
  ways: it returns the dictionary, it leaves through \<open>sys.exit\<close>, or an exception of the
  parsing library passes through it.
\<close>

datatype 'a ending = Returns 'a | SystemExit nat | Raises exn

definition extract_content_from_pptx ::
  "(string \<Rightarrow> bool) \<Rightarrow> (string \<Rightarrow> exn + presentation) \<Rightarrow>
   (bytes \<Rightarrow> exn + 'img) \<Rightarrow> ('img \<Rightarrow> exn + string) \<Rightarrow> string \<Rightarrow>
   string list \<times> corpus ending" where
  "extract_content_from_pptx path_exists Presentation image_open image_to_string file_path =
     (if \<not> path_exists file_path
      then ([''Error: The file '' @ [CHR 0x27] @ file_path @ [CHR 0x27] @ '' was not found.''],
            SystemExit 1)
      else (case Presentation file_path of
              Inl e \<Rightarrow> ([], Raises e)
            | Inr prs \<Rightarrow>
                ([''Extracting content from presentation...''],
                 Returns (slides_loop image_open image_to_string 0 prs []))))"

section \<open>JSON values\<close>

text \<open>
  What \<open>json.loads\<close> returns: \<open>None\<close>, a \<open>bool\<close>, an \<open>int\<close>, a \<open>float\<close> (carried by
  its \<open>repr\<close>, which determines it), a \<open>str\<close>, a \<open>list\<close> or a \<open>dict\<close> with \<open>str\<close> keys
  (in insertion order; the keys of a \<open>dict\<close> are distinct).
\<close>

datatype json =
    JNull
  | JBool bool
  | JInt int
  | JFloat string
  | JStr string
  | JArr "json list"
  | JObj "(string \<times> json) list"

text \<open>Truth value of a JSON value, as \<open>if x:\<close> takes it.\<close>

fun truthy :: "json \<Rightarrow> bool" where
  "truthy JNull = False"
| "truthy (JBool b) = b"
| "truthy (JInt n) = (n \<noteq> 0)"
| "truthy (JFloat r) = (r \<noteq> ''0.0'' \<and> r \<noteq> ''-0.0'')"
| "truthy (JStr s) = (s \<noteq> [])"
| "truthy (JArr xs) = (xs \<noteq> [])"
| "truthy (JObj kvs) = (kvs \<noteq> [])"

text \<open>\<open>sub in s\<close> on two strings.\<close>

fun str_contains :: "string \<Rightarrow> string \<Rightarrow> bool" where
  "str_contains sub [] = (sub = [])"
| "str_contains sub (c # cs) = (take (length sub) (c # cs) = sub \<or> str_contains sub cs)"

text \<open>\<open>key in x\<close> for a string \<open>key\<close>: membership, by type of \<open>x\<close>.\<close>

fun py_in :: "string \<Rightarrow> json \<Rightarrow> exn + bool" where
  "py_in key (JObj kvs) = Inr (key \<in> set (map fst kvs))"
| "py_in key (JArr xs) = Inr (JStr key \<in> set xs)"
| "py_in key (JStr s) = Inr (str_contains key s)"
| "py_in key JNull = Inl (TypeError ''argument of type NoneType is not iterable'')"
| "py_in key (JBool b) = Inl (TypeError ''argument of type bool is not iterable'')"
| "py_in key (JInt n) = Inl (TypeError ''argument of type int is not iterable'')"
| "py_in key (JFloat r) = Inl (TypeError ''argument of type float is not iterable'')"

text \<open>\<open>x[key]\<close> for a string \<open>key\<close>.\<close>

fun py_getitem :: "json \<Rightarrow> string \<Rightarrow> exn + json" where
  "py_getitem (JObj kvs) key =
     (case map_of kvs key of Some v \<Rightarrow> Inr v | None \<Rightarrow> Inl (OtherException (''KeyError: '' @ key)))"
| "py_getitem (JArr xs) key = Inl (TypeError ''list indices must be integers or slices, not str'')"
| "py_getitem (JStr s) key = Inl (TypeError ''string indices must be integers, not str'')"
| "py_getitem v key = Inl (TypeError ''object is not subscriptable'')"

text \<open>\<open>x.get(key, default)\<close>: only a \<open>dict\<close> has the method.\<close>

fun py_get :: "json \<Rightarrow> string \<Rightarrow> json \<Rightarrow> exn + json" where
  "py_get (JObj kvs) key dflt = Inr (case map_of kvs key of Some v \<Rightarrow> v | None \<Rightarrow> dflt)"
| "py_get v key dflt = Inl (AttributeError ''object has no attribute get'')"

text \<open>\<open>len(x)\<close>.\<close>

fun py_len :: "json \<Rightarrow> exn + nat" where
  "py_len (JStr s) = Inr (length s)"
| "py_len (JArr xs) = Inr (length xs)"
| "py_len (JObj kvs) = Inr (length kvs)"
| "py_len v = Inl (TypeError ''object has no len()'')"

text \<open>The elements that \<open>for e in x\<close> visits.\<close>

fun py_iter :: "json \<Rightarrow> exn + json list" where
  "py_iter (JArr xs) = Inr xs"
| "py_iter (JStr s) = Inr (map (\<lambda>c. JStr [c]) s)"
| "py_iter (JObj kvs) = Inr (map (\<lambda>kv. JStr (fst kv)) kvs)"
| "py_iter v = Inl (TypeError ''object is not iterable'')"

text \<open>\<open>str(n)\<close> for a natural number.\<close>

fun digit_char :: "nat \<Rightarrow> char" where
  "digit_char n = char_of (48 + n)"

fun str_nat :: "nat \<Rightarrow> string" where
  "str_nat n = (if n < 10 then [digit_char n] else str_nat (n div 10) @ [digit_char (n mod 10)])"

declare str_nat.simps [simp del]

text \<open>
  \<open>f"{v}"\<close> for a JSON value: a \<open>str\<close> is inserted as it is; for every other value the
  text is Python's \<open>str(v)\<close>, a parameter \<open>str_of\<close>.
\<close>

definition fmt :: "(json \<Rightarrow> string) \<Rightarrow> json \<Rightarrow> string" where
  "fmt str_of v = (case v of JStr s \<Rightarrow> s | _ \<Rightarrow> str_of v)"

text \<open>\<open>s.replace(old, new)\<close>.\<close>

fun replace_ne :: "string \<Rightarrow> string \<Rightarrow> string \<Rightarrow> string" where
  "replace_ne old new [] = []"
| "replace_ne old new (c # cs) =
     (if old \<noteq> [] \<and> take (length old) (c # cs) = old
      then new @ replace_ne old new (drop (length old) (c # cs))
      else c # replace_ne old new cs)"

definition replace :: "string \<Rightarrow> string \<Rightarrow> string \<Rightarrow> string" where
  "replace old new s =
     (if old = [] then new @ concat (map (\<lambda>c. c # new) s) else replace_ne old new s)"

section \<open>The analysis client\<close>

definition prompt :: string where
  "prompt = join nl
     [
      '''',
      ''    You are an expert business analyst and proofreader. Your task is to perform a deep analysis of the following PowerPoint presentation content.'',
      ''    **Primary Objective:** Find all factual, numerical, and logical inconsistencies across the slides.'',
      ''    **Secondary Objective:** If text is extracted from an image of a chart or table, try to interpret its structure and data. For example, if you see numbers in a table, verify if their sum matches any stated totals. Report any mathematical errors.'',
      ''    **CRITICAL: You must format your entire response as a JSON object.** The root object should be a single key \"issues\" which contains a list of issue objects. Each issue object must have the following keys: \"type\", \"conflict\", and \"evidence\" (which is a list of strings).'',
      ''    Example of a valid JSON response format:'',
      ''    {'',
      ''      \"issues\": ['',
      ''        {'',
      ''          \"type\": \"Numerical Inconsistency\",'',
      ''          \"conflict\": \"The total revenue stated on one slide does not match the sum of regional revenues on another.\",'',
      ''          \"evidence\": ['',
      ''            \"Slide 3 states: 'Total FY2024 Revenue: $10.2 Million'.\",'',
      ''            \"Slide 8 chart shows regional revenues summing to $9.8 Million.\"'',
      ''          ]'',
      ''        }'',
      ''      ]'',
      ''    }'',
      ''    If you find no issues at all, return an empty list: {\"issues\": []}'',
      ''    Here is the presentation content:'',
      ''    ''
     ]"

text \<open>
  \<open>analyze_with_gemini\<close>. The client library is three parameters: \<open>configure\<close> stands
  for \<open>genai.configure\<close> followed by the construction of the model (\<open>None\<close>: no
  exception), \<open>generate_content\<close> for the request (it raises, or returns a response: the
  outcome of reading \<open>response.text\<close>), \<open>json_loads\<close> for \<open>json.loads\<close>. The function
  returns what it printed, the prompts it sent to the service, and its result.
\<close>

definition error_variant :: "string \<Rightarrow> json" where
  "error_variant msg = JObj [(''error'', JStr msg)]"

text \<open>The error variant, as the program tests for it: a \<open>dict\<close> with the key \<open>error\<close>.\<close>

definition is_error_variant :: "json \<Rightarrow> bool" where
  "is_error_variant v = (case v of JObj kvs \<Rightarrow> ''error'' \<in> set (map fst kvs) | _ \<Rightarrow> False)"

definition full_text_prompt :: "corpus \<Rightarrow> string" where
  "full_text_prompt content_dict =
     join nl (map (\<lambda>(slide_num, text). ''--- Slide '' @ str_nat slide_num @ '' ---'' @ nl @ text)
                content_dict)"

text \<open>The messages of the error results.\<close>

definition configure_error_msg :: "exn \<Rightarrow> string" where
  "configure_error_msg e = ''Failed to configure Gemini API: '' @ exn_str e"

definition decode_error_msg :: string where
  "decode_error_msg =
     ''Failed to decode JSON from AI response. The model may have returned an invalid format.''"

definition api_error_msg :: "exn \<Rightarrow> string" where
  "api_error_msg e = ''An error occurred during the Gemini API call: '' @ exn_str e"

text \<open>The two handlers of the second \<open>try\<close>, in the order of the source.\<close>

fun api_handler :: "exn \<Rightarrow> json" where
  "api_handler (JSONDecodeError m) = error_variant decode_error_msg"
| "api_handler e = error_variant (api_error_msg e)"

text \<open>
  One call \<open>model.generate_content(request)\<close>: the service receives the request, which
  is what the call adds to the requests sent, and the call raises or returns a response.
\<close>

definition send_request ::
  "(string \<Rightarrow> exn + (exn + string)) \<Rightarrow> string \<Rightarrow> string list \<times> (exn + (exn + string))" where
  "send_request generate_content request = ([request], generate_content request)"

definition analyze_with_gemini ::
  "(string \<Rightarrow> exn option) \<Rightarrow> (string \<Rightarrow> exn + (exn + string)) \<Rightarrow> (string \<Rightarrow> exn + json) \<Rightarrow>
   corpus \<Rightarrow> string \<Rightarrow> string list \<times> string list \<times> json" where
  "analyze_with_gemini configure generate_content json_loads content_dict api_key =
     (let out = [nl @ ''Connecting to Google AI for analysis...'']
      in case configure api_key of
           Some e \<Rightarrow> (out, [], error_variant (configure_error_msg e))
         | None \<Rightarrow>
             (case send_request generate_content (prompt @ full_text_prompt content_dict) of
                (sent, Inl e) \<Rightarrow> (out, sent, api_handler e)
              | (sent, Inr response) \<Rightarrow>
                  (case response of
                     Inl e \<Rightarrow> (out, sent, api_handler e)
                   | Inr response_text \<Rightarrow>
                       (let cleaned_text =
                              replace ''```'' [] (replace ''```json'' [] (strip response_text))
                        in case json_loads cleaned_text of
                             Inl e \<Rightarrow> (out, sent, api_handler e)
                           | Inr v \<Rightarrow> (out, sent, v)))))"

section \<open>The cache\<close>

text \<open>
  The cache directory is a map from paths to file contents. \<open>get_file_hash\<close> reads the
  document through \<open>read_binary\<close> (\<open>open(p, 'rb').read()\<close>, which may raise) and hashes
  with \<open>md5_hexdigest\<close>; both are parameters, as are \<open>json.load\<close> and \<open>json.dump\<close> on
  the text of a file. \<open>open_w\<close> says whether \<open>os.makedirs\<close> and \<open>open(p, 'w')\<close> raise
  for a path (\<open>None\<close>: they do not); on the empty path \<open>open\<close> always raises.
\<close>

type_synonym files = "string \<rightharpoonup> string"

definition CACHE_DIR :: string where
  "CACHE_DIR = ''.cache''"

definition BOX_WIDTH :: nat where
  "BOX_WIDTH = 90"

definition get_file_hash ::
  "(string \<Rightarrow> exn + bytes) \<Rightarrow> (bytes \<Rightarrow> string) \<Rightarrow> string \<Rightarrow> exn + string" where
  "get_file_hash read_binary md5_hexdigest file_path =
     (case read_binary file_path of
        Inl e \<Rightarrow> Inl e
      | Inr buf \<Rightarrow> Inr (md5_hexdigest buf))"

definition read_from_cache :: "(string \<Rightarrow> exn + json) \<Rightarrow> files \<Rightarrow> string \<Rightarrow> exn + json" where
  "read_from_cache json_loads fs cache_path =
     (case fs cache_path of
        None \<Rightarrow> Inl (FileNotFoundError cache_path)
      | Some content \<Rightarrow> json_loads content)"

definition write_to_cache ::
  "(string \<Rightarrow> exn option) \<Rightarrow> (json \<Rightarrow> string) \<Rightarrow> files \<Rightarrow> string \<Rightarrow> json \<Rightarrow> exn + files" where
  "write_to_cache open_w json_dumps fs cache_path data =
     (if cache_path = [] then Inl (FileNotFoundError cache_path)
      else (case open_w cache_path of
              Some e \<Rightarrow> Inl e
            | None \<Rightarrow> Inr (fs(cache_path \<mapsto> json_dumps data))))"

text \<open>\<open>os.path.basename\<close> and \<open>os.path.join\<close> with a relative second part, on POSIX paths.\<close>

definition basename :: "string \<Rightarrow> string" where
  "basename p = rev (takeWhile (\<lambda>c. c \<noteq> CHR ''/'') (rev p))"

definition path_join :: "string \<Rightarrow> string \<Rightarrow> string" where
  "path_join a b =
     (if b \<noteq> [] \<and> hd b = CHR ''/'' then b
      else if a = [] \<or> last a = CHR ''/'' then a @ b
      else a @ ''/'' @ b)"

definition cache_key :: "string \<Rightarrow> string \<Rightarrow> string" where
  "cache_key file_path file_hash =
     path_join CACHE_DIR (basename file_path @ ''_'' @ file_hash @ ''.json'')"

section \<open>The report\<close>

text \<open>The colour codes of \<open>colorama\<close> and the characters of the box.\<close>

definition esc :: "string \<Rightarrow> string" where
  "esc code = CHR 0x1B # CHR ''['' # code @ ''m''"

definition Fore_RED :: string where "Fore_RED = esc ''31''"
definition Fore_GREEN :: string where "Fore_GREEN = esc ''32''"
definition Fore_YELLOW :: string where "Fore_YELLOW = esc ''33''"
definition Fore_CYAN :: string where "Fore_CYAN = esc ''36''"
definition Fore_WHITE :: string where "Fore_WHITE = esc ''37''"
definition Style_BRIGHT :: string where "Style_BRIGHT = esc ''1''"
definition Style_NORMAL :: string where "Style_NORMAL = esc ''22''"
definition Style_RESET_ALL :: string where "Style_RESET_ALL = esc ''0''"

definition T_LEFT :: string where "T_LEFT = [CHR 0xE2, CHR 0x95, CHR 0x94]"
definition T_RIGHT :: string where "T_RIGHT = [CHR 0xE2, CHR 0x95, CHR 0x97]"
definition B_LEFT :: string where "B_LEFT = [CHR 0xE2, CHR 0x95, CHR 0x9A]"
definition B_RIGHT :: string where "B_RIGHT = [CHR 0xE2, CHR 0x95, CHR 0x9D]"
definition H_LINE :: string where "H_LINE = [CHR 0xE2, CHR 0x95, CHR 0x90]"
definition V_LINE :: string where "V_LINE = [CHR 0xE2, CHR 0x95, CHR 0x91]"
definition CHECK_MARK :: string where "CHECK_MARK = [CHR 0xE2, CHR 0x9C, CHR 0x85]"

text \<open>\<open>s * n\<close> and \<open>s.center(width, fill)\<close>.\<close>

definition str_mul :: "string \<Rightarrow> nat \<Rightarrow> string" where
  "str_mul s n = concat (replicate n s)"

definition center :: "string \<Rightarrow> nat \<Rightarrow> char \<Rightarrow> string" where
  "center s width fill =
     (if width \<le> length s then s
      else (let marg = width - length s;
                left = marg div 2 + (if odd marg \<and> odd width then 1 else 0)
            in replicate left fill @ s @ replicate (marg - left) fill))"

text \<open>
  \<open>textwrap.wrap(text, width=w)\<close> is the parameter \<open>wrap\<close>, defined on strings; on a
  value that is not a \<open>str\<close> the library raises \<open>AttributeError\<close>.
\<close>

definition wrap_value :: "(string \<Rightarrow> nat \<Rightarrow> string list) \<Rightarrow> json \<Rightarrow> nat \<Rightarrow> exn + string list" where
  "wrap_value wrap v width =
     (case v of
        JStr s \<Rightarrow> Inr (wrap s width)
      | _ \<Rightarrow> Inl (AttributeError ''object has no attribute expandtabs''))"

subsection \<open>The plain report\<close>

text \<open>The loop \<open>for i, issue in enumerate(issues)\<close>: the lines it appends, or the exception.\<close>

fun plain_issues :: "(json \<Rightarrow> string) \<Rightarrow> nat \<Rightarrow> json list \<Rightarrow> exn + string list" where
  "plain_issues str_of i [] = Inr []"
| "plain_issues str_of i (issue # rest) =
     (case py_get issue ''type'' (JStr ''N/A'') of
        Inl e \<Rightarrow> Inl e
      | Inr issue_type \<Rightarrow>
     (case py_get issue ''conflict'' (JStr ''N/A'') of
        Inl e \<Rightarrow> Inl e
      | Inr conflict \<Rightarrow>
     (case py_get issue ''evidence'' (JArr []) of
        Inl e \<Rightarrow> Inl e
      | Inr evidence \<Rightarrow>
     (case py_iter evidence of
        Inl e \<Rightarrow> Inl e
      | Inr evs \<Rightarrow>
     (case plain_issues str_of (i + 1) rest of
        Inl e \<Rightarrow> Inl e
      | Inr later \<Rightarrow>
          Inr ([nl @ ''--- ISSUE #'' @ str_nat (i + 1) @ '' ---'' @ nl,
                ''TYPE: '' @ fmt str_of issue_type,
                ''CONFLICT: '' @ fmt str_of conflict,
                ''EVIDENCE:'']
               @ map (\<lambda>ev. ''  - '' @ fmt str_of ev) evs
               @ later))))))"

definition generate_plain_text_report :: "(json \<Rightarrow> string) \<Rightarrow> json \<Rightarrow> exn + string" where
  "generate_plain_text_report str_of analysis_data =
     (case py_in ''error'' analysis_data of
        Inl e \<Rightarrow> Inl e
      | Inr True \<Rightarrow>
          (case py_getitem analysis_data ''error'' of
             Inl e \<Rightarrow> Inl e
           | Inr msg \<Rightarrow> Inr (''An error occurred:'' @ nl @ fmt str_of msg))
      | Inr False \<Rightarrow>
          (case py_get analysis_data ''issues'' (JArr []) of
             Inl e \<Rightarrow> Inl e
           | Inr issues \<Rightarrow>
               if \<not> truthy issues
               then Inr (CHECK_MARK @ '' No inconsistencies were found in the presentation.'')
               else (case py_len issues of
                       Inl e \<Rightarrow> Inl e
                     | Inr n \<Rightarrow>
                    (case py_iter issues of
                       Inl e \<Rightarrow> Inl e
                     | Inr xs \<Rightarrow>
                    (case plain_issues str_of 0 xs of
                       Inl e \<Rightarrow> Inl e
                     | Inr report_lines \<Rightarrow>
                         Inr (join nl
                                ((''AI Inconsistency Analysis Report: Found '' @ str_nat n
                                    @ '' Issues'' @ nl @ str_mul ''='' 80)
                                 # report_lines)))))))"

subsection \<open>The decorated report\<close>

text \<open>
  \<open>generate_report\<close> prints as it goes: it yields the arguments of its \<open>print\<close> calls, in
  order, and the exception that stopped it, if one did.
\<close>

type_synonym printed = "string list \<times> exn option"

fun evidence_loop :: "(string \<Rightarrow> nat \<Rightarrow> string list) \<Rightarrow> json list \<Rightarrow> printed" where
  "evidence_loop wrap [] = ([], None)"
| "evidence_loop wrap (ev # rest) =
     (case wrap_value wrap ev (BOX_WIDTH - 4) of
        Inl e \<Rightarrow> ([], Some e)
      | Inr [] \<Rightarrow> ([], Some (IndexError ''list index out of range''))
      | Inr (first # others) \<Rightarrow>
          (case evidence_loop wrap rest of
             (out, r) \<Rightarrow>
               ((''  '' @ Fore_WHITE @ ''- '' @ first) # map (\<lambda>line. ''    '' @ line) others @ out,
                r)))"

fun issue_loop ::
  "(string \<Rightarrow> nat \<Rightarrow> string list) \<Rightarrow> (json \<Rightarrow> string) \<Rightarrow> nat \<Rightarrow> json list \<Rightarrow> printed" where
  "issue_loop wrap str_of i [] = ([], None)"
| "issue_loop wrap str_of i (issue # rest) =
     (case py_get issue ''type'' (JStr ''N/A'') of
        Inl e \<Rightarrow> ([], Some e)
      | Inr issue_type \<Rightarrow>
     (case py_get issue ''conflict'' (JStr ''N/A'') of
        Inl e \<Rightarrow> ([], Some e)
      | Inr conflict \<Rightarrow>
     (case py_get issue ''evidence'' (JArr []) of
        Inl e \<Rightarrow> ([], Some e)
      | Inr evidence \<Rightarrow>
     (let header = '' ISSUE #'' @ str_nat (i + 1) @ '' '';
          out1 = [Fore_WHITE @ Style_BRIGHT @ center header BOX_WIDTH CHR ''-'',
                  Fore_YELLOW @ Style_BRIGHT @ ''TYPE:'' @ Style_RESET_ALL @ '' ''
                    @ fmt str_of issue_type];
          conflict_header = Fore_RED @ Style_BRIGHT @ ''CONFLICT:'' @ Style_RESET_ALL @ '' ''
      in case wrap_value wrap conflict (BOX_WIDTH - length ''CONFLICT: '' - 1) of
           Inl e \<Rightarrow> (out1, Some e)
         | Inr [] \<Rightarrow> (out1, Some (IndexError ''list index out of range''))
         | Inr (first # others) \<Rightarrow>
        (let out2 = out1 @ [conflict_header @ first]
                      @ map (\<lambda>line. str_mul '' '' (length ''CONFLICT: '' + 1) @ line) others
                      @ [Fore_CYAN @ Style_BRIGHT @ ''EVIDENCE:'' @ Style_RESET_ALL]
         in case py_iter evidence of
              Inl e \<Rightarrow> (out2, Some e)
            | Inr evs \<Rightarrow>
           (case evidence_loop wrap evs of
              (out3, Some e) \<Rightarrow> (out2 @ out3, Some e)
            | (out3, None) \<Rightarrow>
                (case issue_loop wrap str_of (i + 1) rest of
                   (out4, r) \<Rightarrow> (out2 @ out3 @ [[]] @ out4, r))))))))"

definition generate_report ::
  "(string \<Rightarrow> nat \<Rightarrow> string list) \<Rightarrow> (json \<Rightarrow> string) \<Rightarrow> json \<Rightarrow> printed" where
  "generate_report wrap str_of analysis_data =
     (case py_in ''error'' analysis_data of
        Inl e \<Rightarrow> ([], Some e)
      | Inr True \<Rightarrow>
          (case py_getitem analysis_data ''error'' of
             Inl e \<Rightarrow> ([], Some e)
           | Inr msg \<Rightarrow> ([Fore_RED @ ''An error occurred:'' @ nl @ fmt str_of msg], None))
      | Inr False \<Rightarrow>
          (case py_get analysis_data ''issues'' (JArr []) of
             Inl e \<Rightarrow> ([], Some e)
           | Inr issues \<Rightarrow>
              (let title = '' AI Inconsistency Analysis Report '';
                   top = [nl @ Fore_CYAN @ T_LEFT @ str_mul H_LINE (BOX_WIDTH - 2) @ T_RIGHT,
                          Fore_CYAN @ V_LINE @ Style_BRIGHT @ center title (BOX_WIDTH - 2) CHR '' ''
                            @ Style_NORMAL @ V_LINE];
                   bottom = Fore_CYAN @ B_LEFT @ str_mul H_LINE (BOX_WIDTH - 2) @ B_RIGHT @ nl
               in if truthy issues
                  then (case py_len issues of
                          Inl e \<Rightarrow> (top, Some e)
                        | Inr n \<Rightarrow>
                       (let subtitle = ''Found '' @ str_nat n @ '' potential issue(s) to review.'';
                            box = top @ [Fore_CYAN @ V_LINE @ Fore_YELLOW
                                           @ center subtitle (BOX_WIDTH - 2) CHR '' ''
                                           @ Fore_CYAN @ V_LINE,
                                         bottom]
                        in case py_iter issues of
                             Inl e \<Rightarrow> (box, Some e)
                           | Inr xs \<Rightarrow>
                          (case issue_loop wrap str_of 0 xs of
                             (out, Some e) \<Rightarrow> (box @ out, Some e)
                           | (out, None) \<Rightarrow>
                               (box @ out @ [Fore_CYAN @ str_mul ''='' BOX_WIDTH], None))))
                  else (top @ [bottom,
                               Fore_GREEN @ CHECK_MARK
                                 @ '' No inconsistencies were found in the presentation.'' @ nl],
                        None))))"

subsection \<open>The results that the renderers accept\<close>


fun iterable :: "json \<Rightarrow> bool" where
  "iterable (JArr xs) = True"
| "iterable (JStr s) = True"
| "iterable (JObj kvs) = True"
| "iterable v = False"

fun entries :: "json \<Rightarrow> json list" where
  "entries (JArr xs) = xs"
| "entries (JStr s) = map (\<lambda>c. JStr [c]) s"
| "entries (JObj kvs) = map (\<lambda>kv. JStr (fst kv)) kvs"
| "entries v = []"






section \<open>The orchestrator\<close>

text \<open>
  The command line and \<open>config.ini\<close>, as \<open>main\<close> reads them: an absent option is
  \<open>None\<close>, and \<open>cfg_caching\<close> is the value of \<open>getboolean\<close> with its fallback.
\<close>

record args =
  arg_file :: "string option"
  arg_output :: "string option"
  arg_no_cache :: bool

record config =
  cfg_default_file :: "string option"
  cfg_api_key :: "string option"
  cfg_caching :: bool

text \<open>Everything outside the program that a run calls.\<close>

record 'img env =
  path_exists :: "string \<Rightarrow> bool"
  Presentation :: "string \<Rightarrow> exn + presentation"
  Image_open :: "bytes \<Rightarrow> exn + 'img"
  image_to_string :: "'img \<Rightarrow> exn + string"
  read_binary :: "string \<Rightarrow> exn + bytes"
  md5_hexdigest :: "bytes \<Rightarrow> string"
  json_loads :: "string \<Rightarrow> exn + json"
  json_dumps :: "json \<Rightarrow> string"
  open_w :: "string \<Rightarrow> exn option"
  configure :: "string \<Rightarrow> exn option"
  generate_content :: "string \<Rightarrow> exn + (exn + string)"
  wrap :: "string \<Rightarrow> nat \<Rightarrow> string list"
  str_of :: "json \<Rightarrow> string"

text \<open>
  What a run leaves behind: the arguments of its \<open>print\<close> calls, the cache directory, the
  requests sent to the analysis service, the report file written for \<open>--output\<close>, and
  how the run ended.
\<close>

record run =
  stdout :: "string list"
  cache :: files
  requests :: "string list"
  report_file :: "(string \<times> string) option"
  ending :: "unit ending"

text \<open>\<open>a or b\<close> on two optional strings: \<open>None\<close> and the empty string are false.\<close>

definition py_or :: "string option \<Rightarrow> string option \<Rightarrow> string option" where
  "py_or a b = (case a of Some (c # cs) \<Rightarrow> a | _ \<Rightarrow> b)"

definition not_found_msg :: "string \<Rightarrow> string" where
  "not_found_msg file_path =
     ''Error: The file '' @ [CHR 0x27] @ file_path @ [CHR 0x27] @ '' was not found.''"

text \<open>
  The block \<open>if use_caching:\<close>. It yields what it printed, \<open>cache_path\<close>,
  \<open>analysis_result\<close> (\<open>JNull\<close> is Python's \<open>None\<close>) and whether it left through
  \<open>sys.exit(1)\<close>.
\<close>

fun lookup_handler :: "string \<Rightarrow> string list \<Rightarrow> string \<Rightarrow> exn \<Rightarrow> string list \<times> string \<times> json \<times> bool"
  where
  "lookup_handler file_path out cache_path (FileNotFoundError m) =
     (out @ [not_found_msg file_path], cache_path, JNull, True)"
| "lookup_handler file_path out cache_path e =
     (out @ [''Could not read cache, proceeding with analysis. Error: '' @ exn_str e],
      cache_path, JNull, False)"

definition main_lookup :: "'img env \<Rightarrow> files \<Rightarrow> string \<Rightarrow> string list \<times> string \<times> json \<times> bool" where
  "main_lookup E fs file_path =
     (case get_file_hash (read_binary E) (md5_hexdigest E) file_path of
        Inl e \<Rightarrow> lookup_handler file_path [] [] e
      | Inr file_hash \<Rightarrow>
          (let cache_path = cache_key file_path file_hash
           in if fs cache_path \<noteq> None
              then (let out = [''Loading results from cache: '' @ cache_path]
                    in case read_from_cache (json_loads E) fs cache_path of
                         Inl e \<Rightarrow> lookup_handler file_path out cache_path e
                       | Inr v \<Rightarrow> (out, cache_path, v, False))
              else ([], cache_path, JNull, False)))"

definition no_content_msg :: string where
  "no_content_msg = ''Could not extract any content from the presentation.''"

definition unexpected_msg :: "exn \<Rightarrow> string" where
  "unexpected_msg e = ''An unexpected error occurred during analysis: '' @ exn_str e"

text \<open>
  The block \<open>Generate and Display Report\<close>, from a run \<open>r\<close> that has come this far.
  Nothing here is inside a \<open>try\<close>: an exception ends the run.
\<close>

definition main_report :: "'img env \<Rightarrow> args \<Rightarrow> json \<Rightarrow> run \<Rightarrow> run" where
  "main_report E a analysis_result r =
     (case arg_output a of
        Some (c # cs) \<Rightarrow>
          (case generate_plain_text_report (str_of E) analysis_result of
             Inl e \<Rightarrow> r\<lparr>ending := Raises e\<rparr>
           | Inr plain_report \<Rightarrow>
               (case open_w E (c # cs) of
                  Some e \<Rightarrow> r\<lparr>ending := Raises e\<rparr>
                | None \<Rightarrow>
                    r\<lparr>report_file := Some (c # cs, plain_report),
                      stdout := stdout r @ [nl @ ''Report successfully saved to '' @ c # cs]\<rparr>))
      | _ \<Rightarrow>
          (case generate_report (wrap E) (str_of E) analysis_result of
             (out, None) \<Rightarrow> r\<lparr>stdout := stdout r @ out\<rparr>
           | (out, Some e) \<Rightarrow> r\<lparr>stdout := stdout r @ out, ending := Raises e\<rparr>))"

text \<open>
  The block \<open>if analysis_result is None:\<close> and what follows it, from a run \<open>r\<close> that has
  come this far.
\<close>

definition main_analysis :: "'img env \<Rightarrow> args \<Rightarrow> bool \<Rightarrow> string \<Rightarrow> string \<Rightarrow> string \<Rightarrow> run \<Rightarrow> run"
  where
  "main_analysis E a use_caching api_key file_path cache_path r =
     (case extract_content_from_pptx (path_exists E) (Presentation E) (Image_open E)
             (image_to_string E) file_path of
        (out, SystemExit n) \<Rightarrow> r\<lparr>stdout := stdout r @ out, ending := SystemExit n\<rparr>
      | (out, Raises e) \<Rightarrow> r\<lparr>stdout := stdout r @ out @ [unexpected_msg e]\<rparr>
      | (out, Returns content) \<Rightarrow>
          if content = []
          then r\<lparr>stdout := stdout r @ out @ [no_content_msg]\<rparr>
          else (case analyze_with_gemini (configure E) (generate_content E) (json_loads E)
                       content api_key of
                  (out2, reqs, analysis_result) \<Rightarrow>
                    (let r1 = r\<lparr>stdout := stdout r @ out @ out2, requests := requests r @ reqs\<rparr>
                     in if use_caching
                        then (case py_in ''error'' analysis_result of
                                Inl e \<Rightarrow> r1\<lparr>stdout := stdout r1 @ [unexpected_msg e]\<rparr>
                              | Inr True \<Rightarrow> main_report E a analysis_result r1
                              | Inr False \<Rightarrow>
                                  (case write_to_cache (open_w E) (json_dumps E) (cache r1)
                                          cache_path analysis_result of
                                     Inl e \<Rightarrow> r1\<lparr>stdout := stdout r1 @ [unexpected_msg e]\<rparr>
                                   | Inr fs' \<Rightarrow>
                                       main_report E a analysis_result
                                         (r1\<lparr>cache := fs',
                                             stdout := stdout r1
                                               @ [''Analysis complete. Results saved to cache: ''
                                                    @ cache_path]\<rparr>)))
                        else main_report E a analysis_result r1)))"

definition placeholder_key :: string where
  "placeholder_key = ''YOUR_API_KEY_HERE''"

definition no_api_key_msg :: string where
  "no_api_key_msg = ''Error: API key not found in config.ini. Please add it.''"

definition main :: "'img env \<Rightarrow> config \<Rightarrow> args \<Rightarrow> files \<Rightarrow> run" where
  "main E cfg a fs =
     (let r0 = \<lparr>stdout = [], cache = fs, requests = [], report_file = None, ending = Returns ()\<rparr>
      in case py_or (arg_file a) (cfg_default_file cfg) of
           Some (c # cs) \<Rightarrow>
             (let file_path = c # cs;
                  use_caching = (\<not> arg_no_cache a \<and> cfg_caching cfg)
              in case cfg_api_key cfg of
                   Some (k # ks) \<Rightarrow>
                     (let api_key = k # ks
                      in if api_key = placeholder_key
                         then r0\<lparr>stdout := [no_api_key_msg], ending := SystemExit 1\<rparr>
                         else (case (if use_caching then main_lookup E fs file_path
                                     else ([], [], JNull, False)) of
                                 (out, cache_path, analysis_result, exited) \<Rightarrow>
                                   if exited then r0\<lparr>stdout := out, ending := SystemExit 1\<rparr>
                                   else if analysis_result = JNull
                                   then main_analysis E a use_caching api_key file_path
                                          cache_path (r0\<lparr>stdout := out\<rparr>)
                                   else main_report E a analysis_result (r0\<lparr>stdout := out\<rparr>)))
                 | _ \<Rightarrow> r0\<lparr>stdout := [no_api_key_msg], ending := SystemExit 1\<rparr>)
         | _ \<Rightarrow>
             r0\<lparr>stdout := [''Error: No presentation file specified. Provide one with --file or in config.ini.''],
                ending := SystemExit 1\<rparr>)"

section \<open>A concrete run\<close>

text \<open>
  The scenario of the specification: a deck of two slides, \<open>Revenue: $10M\<close> and
  \<open>Regional total: $9.8M\<close>, for which the service reports one numerical inconsistency.
  The library functions are given on the values of this scenario: recognition finds no
  text in an image, the deck has the four bytes 80, 75, 3, 4 and their MD5 digest,
  \<open>json_loads\<close> reads the two texts that occur and rejects every other, \<open>json_dumps\<close>
  writes the one result with an indentation of four, and \<open>null\<close> otherwise.
\<close>

definition text_box :: "string \<Rightarrow> shape" where
  "text_box s = \<lparr>has_text_frame = True, shape_text = s, shape_type = TEXT_BOX, image_blob = []\<rparr>"

definition sample_deck :: presentation where
  "sample_deck =
     [\<lparr>shapes = [text_box ''Revenue: $10M''], has_notes_slide = False, notes_text = []\<rparr>,
      \<lparr>shapes = [text_box ''Regional total: $9.8M''], has_notes_slide = False, notes_text = []\<rparr>]"

definition blank_slide :: slide where
  "blank_slide = \<lparr>shapes = [], has_notes_slide = False, notes_text = []\<rparr>"

text \<open>
  A slide that holds white space only: a text box of two blanks, a picture, and notes
  that are one line feed.
\<close>

definition whitespace_slide :: slide where
  "whitespace_slide =
     \<lparr>shapes = [text_box ''  '',
                \<lparr>has_text_frame = False, shape_text = [], shape_type = PICTURE, image_blob = [7]\<rparr>],
      has_notes_slide = True, notes_text = [CHR 0x0A]\<rparr>"

definition sample_result :: json where
  "sample_result =
     JObj [(''issues'',
            JArr [JObj [(''type'', JStr ''Numerical Inconsistency''),
                        (''conflict'', JStr ''Mismatch between totals''),
                        (''evidence'', JArr [JStr ''Slide 1: $10M'', JStr ''Slide 2: $9.8M''])]])]"

text \<open>A result with one issue whose \<open>conflict\<close> is the empty string.\<close>

definition empty_conflict_result :: json where
  "empty_conflict_result =
     JObj [(''issues'',
            JArr [JObj [(''type'', JStr ''Numerical Inconsistency''),
                        (''conflict'', JStr []),
                        (''evidence'', JArr [JStr ''Slide 1: $10M''])]])]"


definition sample_response :: string where
  "sample_response =
     ''{\"issues\":[{\"type\":\"Numerical Inconsistency\",\"conflict\":\"Mismatch between totals\",\"evidence\":[\"Slide 1: $10M\",\"Slide 2: $9.8M\"]}]}''"

definition sample_cache_text :: string where
  "sample_cache_text = join nl
     [''{'',
      ''    \"issues\": ['',
      ''        {'',
      ''            \"type\": \"Numerical Inconsistency\",'',
      ''            \"conflict\": \"Mismatch between totals\",'',
      ''            \"evidence\": ['',
      ''                \"Slide 1: $10M\",'',
      ''                \"Slide 2: $9.8M\"'',
      ''            ]'',
      ''        }'',
      ''    ]'',
      ''}'']"

definition sample_loads :: "string \<Rightarrow> exn + json" where
  "sample_loads s =
     (if s = sample_response \<or> s = sample_cache_text then Inr sample_result
      else Inl (JSONDecodeError ''Expecting value''))"

definition sample_dumps :: "json \<Rightarrow> string" where
  "sample_dumps v = (if v = sample_result then sample_cache_text else ''null'')"

text \<open>
  A greedy wrapper: the words of the text, separated by single blanks, as many on a line
  as fit the width. It agrees with \<open>textwrap.wrap\<close> on texts of single-spaced words
  without hyphens, none longer than the width; in particular it returns no line for a
  text without a word.
\<close>

fun split_words :: "string \<Rightarrow> string \<Rightarrow> string list" where
  "split_words cur [] = (if cur = [] then [] else [cur])"
| "split_words cur (c # cs) =
     (if py_isspace c then (if cur = [] then split_words [] cs else cur # split_words [] cs)
      else split_words (cur @ [c]) cs)"

fun fill_lines :: "nat \<Rightarrow> string \<Rightarrow> string list \<Rightarrow> string list" where
  "fill_lines width cur [] = (if cur = [] then [] else [cur])"
| "fill_lines width cur (w # ws) =
     (if cur = [] then fill_lines width w ws
      else if length cur + 1 + length w \<le> width then fill_lines width (cur @ '' '' @ w) ws
      else cur # fill_lines width w ws)"

definition greedy_wrap :: "string \<Rightarrow> nat \<Rightarrow> string list" where
  "greedy_wrap s width = fill_lines width [] (split_words [] s)"

text \<open>\<open>str\<close> on the values that are not containers; a container is not formatted here.\<close>

fun simple_str :: "json \<Rightarrow> string" where
  "simple_str JNull = ''None''"
| "simple_str (JBool b) = (if b then ''True'' else ''False'')"
| "simple_str (JInt n) = (if n < 0 then ''-'' @ str_nat (nat (- n)) else str_nat (nat n))"
| "simple_str (JFloat r) = r"
| "simple_str (JStr s) = s"
| "simple_str (JArr xs) = ''[...]''"
| "simple_str (JObj kvs) = ''{...}''"

definition sample_env :: "bytes env" where
  "sample_env =
     \<lparr>path_exists = (\<lambda>p. True),
      Presentation = (\<lambda>p. Inr sample_deck),
      Image_open = (\<lambda>b. Inr b),
      image_to_string = (\<lambda>img. Inr []),
      read_binary = (\<lambda>p. Inr [80, 75, 3, 4]),
      md5_hexdigest = (\<lambda>b. ''10893fd7cff66dca193f658ca9438d15''),
      json_loads = sample_loads,
      json_dumps = sample_dumps,
      open_w = (\<lambda>p. None),
      configure = (\<lambda>k. None),
      generate_content = (\<lambda>request. Inr (Inr sample_response)),
      wrap = greedy_wrap,
      str_of = simple_str\<rparr>"

definition sample_config :: config where
  "sample_config =
     \<lparr>cfg_default_file = Some ''deck.pptx'', cfg_api_key = Some ''k'', cfg_caching = True\<rparr>"

definition sample_args :: args where
  "sample_args = \<lparr>arg_file = None, arg_output = None, arg_no_cache = False\<rparr>"

section \<open>Properties of the extraction\<close>

lemma update_fresh: "k \<notin> fst ` set d \<Longrightarrow> AList.update k v d = d @ [(k, v)]"
  by (induction d) auto

text \<open>
  The loop appends one entry per slide, numbered from \<open>i + 1\<close>, as long as the numbers
  already in the dictionary are at most \<open>i\<close>.
\<close>

lemma slides_loop_append:
  "\<forall>k \<in> fst ` set d. k \<le> i \<Longrightarrow>
   slides_loop io its i prs d =
     d @ zip [Suc i ..< Suc i + length prs] (map (slide_block io its) prs)"
proof (induction prs arbitrary: i d)
  case Nil
  then show ?case by simp
next
  case (Cons sl rest)
  have fresh: "Suc i \<notin> fst ` set d"
    using Cons.prems by auto
  have bound: "\<forall>k \<in> fst ` set (d @ [(Suc i, slide_block io its sl)]). k \<le> Suc i"
    using Cons.prems by auto
  have "[Suc i ..< Suc i + length (sl # rest)] =
          Suc i # [Suc (Suc i) ..< Suc (Suc i) + length rest]"
    by (simp add: upt_rec)
  then show ?case
    using Cons.IH [OF bound] by (simp add: update_fresh [OF fresh])
qed

lemma slides_loop_zip:
  "slides_loop io its 0 prs [] = zip [1 ..< Suc (length prs)] (map (slide_block io its) prs)"
  using slides_loop_append [of "[]" 0 io its prs] by simp

lemma slides_loop_length: "length (slides_loop io its 0 prs []) = length prs"
  by (simp add: slides_loop_zip del: upt_Suc)

lemma slides_loop_entry:
  "i < length prs \<Longrightarrow> slides_loop io its 0 prs [] ! i = (Suc i, slide_block io its (prs ! i))"
  by (simp add: slides_loop_zip del: upt_Suc)

text \<open>\<open>strip\<close> leaves nothing exactly of the blank texts.\<close>

lemma strip_Nil: "strip [] = []"
  by (simp add: strip_def)

lemma dropWhile_all: "(\<forall>x \<in> set (dropWhile P xs). P x) \<longleftrightarrow> (\<forall>x \<in> set xs. P x)"
  by (induction xs) auto

lemma strip_empty_iff: "strip s = [] \<longleftrightarrow> blank s"
  by (simp add: strip_def blank_def list_all_iff dropWhile_eq_Nil_conv dropWhile_all)

lemma ocr_image_blank: "blank (ocr_image io its b) \<longleftrightarrow> no_picture_text io its b"
  by (simp add: ocr_image_def no_picture_text_def blank_def split: sum.splits)

text \<open>What a shape appends does not depend on what was appended before it.\<close>

lemma shape_step_append: "shape_step io its texts sh = texts @ shape_step io its [] sh"
  by (simp add: shape_step_def Let_def)

lemma shape_step_empty_iff: "shape_step io its [] sh = [] \<longleftrightarrow> bare_shape io its sh"
  by (auto simp: shape_step_def Let_def bare_shape_def strip_empty_iff ocr_image_blank)

lemma shape_step_segments: "[] \<notin> set (shape_step io its [] sh)"
proof -
  have "shape_text sh \<noteq> []" if "strip (shape_text sh) \<noteq> []"
    using that strip_Nil by metis
  then show ?thesis
    by (auto simp: shape_step_def Let_def strip_Nil)
qed

lemma foldl_shape_step_append:
  "foldl (shape_step io its) texts shs = texts @ foldl (shape_step io its) [] shs"
proof (induction shs arbitrary: texts)
  case Nil
  then show ?case by simp
next
  case (Cons sh rest)
  have "foldl (shape_step io its) texts (sh # rest)
          = foldl (shape_step io its) (texts @ shape_step io its [] sh) rest"
    using shape_step_append [of io its texts sh] by simp
  also have "\<dots> = texts @ shape_step io its [] sh @ foldl (shape_step io its) [] rest"
    using Cons.IH [of "texts @ shape_step io its [] sh"] by simp
  also have "shape_step io its [] sh @ foldl (shape_step io its) [] rest
               = foldl (shape_step io its) [] (sh # rest)"
    using Cons.IH [of "shape_step io its [] sh"] by simp
  finally show ?case .
qed

lemma foldl_shape_step_empty_iff:
  "foldl (shape_step io its) [] shs = [] \<longleftrightarrow> list_all (bare_shape io its) shs"
proof (induction shs)
  case Nil
  then show ?case by simp
next
  case (Cons sh rest)
  have "foldl (shape_step io its) [] (sh # rest)
          = shape_step io its [] sh @ foldl (shape_step io its) [] rest"
    using foldl_shape_step_append [of io its "shape_step io its [] sh" rest] by simp
  then show ?case
    using Cons.IH by (simp add: shape_step_empty_iff)
qed

lemma foldl_shape_step_segments: "[] \<notin> set (foldl (shape_step io its) [] shs)"
proof (induction shs)
  case Nil
  then show ?case by simp
next
  case (Cons sh rest)
  have "foldl (shape_step io its) [] (sh # rest)
          = shape_step io its [] sh @ foldl (shape_step io its) [] rest"
    using foldl_shape_step_append [of io its "shape_step io its [] sh" rest] by simp
  then show ?case
    using Cons.IH shape_step_segments [of io its sh] by simp
qed

lemma join_empty_iff: "sep \<noteq> [] \<Longrightarrow> [] \<notin> set xs \<Longrightarrow> join sep xs = [] \<longleftrightarrow> xs = []"
  by (induction sep xs rule: join.induct) auto

text \<open>The block of a slide is the empty string exactly when the slide is bare.\<close>

lemma slide_block_empty_iff: "slide_block io its sl = [] \<longleftrightarrow> bare_slide io its sl"
proof -
  define texts where "texts = foldl (shape_step io its) [] (shapes sl)"
  define texts' where "texts' =
    (if has_notes_slide sl \<and> strip (notes_text sl) \<noteq> []
     then texts @ [''[Speaker Notes]:'' @ nl @ notes_text sl] else texts)"
  have seg: "[] \<notin> set texts'"
    using foldl_shape_step_segments [of io its "shapes sl"] by (simp add: texts'_def texts_def)
  have "slide_block io its sl = join (nl @ ''---'' @ nl) texts'"
    by (simp add: slide_block_def Let_def texts'_def texts_def)
  then have "slide_block io its sl = [] \<longleftrightarrow> texts' = []"
    using join_empty_iff [OF _ seg, of "nl @ ''---'' @ nl"] by simp
  also have "texts' = [] \<longleftrightarrow> bare_slide io its sl"
    by (auto simp: texts'_def texts_def bare_slide_def foldl_shape_step_empty_iff
                   strip_empty_iff)
  finally show ?thesis .
qed

text \<open>
  C6. For a document that opens, the corpus builder returns, without raising, a
  dictionary with exactly one entry per slide, keyed 1, 2, ... in the order of the
  slides; the entry of a slide is its text block. The entry of a bare slide (every text
  frame blank, no picture that yields text, notes blank or absent) is present and is the
  empty string, and the entry of every other slide is not empty.
\<close>

theorem corpus_one_entry_per_slide:
  assumes "pe fp" and "P fp = Inr prs"
  shows "snd (extract_content_from_pptx pe P io its fp) = Returns (slides_loop io its 0 prs [])
         \<and> map fst (slides_loop io its 0 prs []) = [1 ..< Suc (length prs)]
         \<and> map snd (slides_loop io its 0 prs []) = map (slide_block io its) prs
         \<and> (\<forall>i < length prs. bare_slide io its (prs ! i) \<longrightarrow>
                slides_loop io its 0 prs [] ! i = (Suc i, [])
                \<and> map_of (slides_loop io its 0 prs []) (Suc i) = Some [])
         \<and> (\<forall>i < length prs. \<not> bare_slide io its (prs ! i) \<longrightarrow>
                (\<exists>t. t \<noteq> [] \<and> slides_loop io its 0 prs [] ! i = (Suc i, t)))"
proof (intro conjI allI impI)
  show "snd (extract_content_from_pptx pe P io its fp) = Returns (slides_loop io its 0 prs [])"
    using assms by (simp add: extract_content_from_pptx_def)
  show "map fst (slides_loop io its 0 prs []) = [1 ..< Suc (length prs)]"
    by (simp add: slides_loop_zip del: upt_Suc)
  show "map snd (slides_loop io its 0 prs []) = map (slide_block io its) prs"
    by (simp add: slides_loop_zip del: upt_Suc)
next
  fix i
  assume i: "i < length prs" and bare: "bare_slide io its (prs ! i)"
  show "slides_loop io its 0 prs [] ! i = (Suc i, [])"
    using i bare by (simp add: slides_loop_entry slide_block_empty_iff)
  have "distinct (map fst (slides_loop io its 0 prs []))"
    by (simp add: slides_loop_zip del: upt_Suc)
  moreover have "(Suc i, []) \<in> set (slides_loop io its 0 prs [])"
    using i bare slides_loop_entry [of i prs io its]
    by (metis (no_types) nth_mem slide_block_empty_iff slides_loop_length)
  ultimately show "map_of (slides_loop io its 0 prs []) (Suc i) = Some []"
    by (rule map_of_is_SomeI)
next
  fix i
  assume i: "i < length prs" and full: "\<not> bare_slide io its (prs ! i)"
  then show "\<exists>t. t \<noteq> [] \<and> slides_loop io its 0 prs [] ! i = (Suc i, t)"
    by (simp add: slides_loop_entry slide_block_empty_iff)
qed

text \<open>
  A deck of three slides: one that holds white space only, one without shapes, and one
  with a text. Recognition returns a blank for every picture.
\<close>

theorem corpus_one_entry_per_slide_witness:
  "snd (extract_content_from_pptx (\<lambda>p. True)
          (\<lambda>p. Inr [whitespace_slide, blank_slide, hd sample_deck])
          (\<lambda>b. Inr b) (\<lambda>img. Inr '' '') ''deck.pptx'')
     = Returns [(1, []), (2, []), (3, ''Revenue: $10M'')]
   \<and> bare_slide (\<lambda>b. Inr b) (\<lambda>img. Inr '' '') whitespace_slide
   \<and> bare_slide (\<lambda>b. Inr b) (\<lambda>img. Inr '' '') blank_slide
   \<and> \<not> bare_slide (\<lambda>b. Inr b) (\<lambda>img. Inr '' '') (hd sample_deck)
   \<and> map_of (slides_loop (\<lambda>b. Inr b) (\<lambda>img. Inr '' '') 0
                [whitespace_slide, blank_slide, hd sample_deck] []) (Suc 0) = Some []"
proof -
  let ?io = "\<lambda>b::bytes. (Inr b :: exn + bytes)"
  let ?its = "\<lambda>img::bytes. (Inr '' '' :: exn + string)"
  let ?prs = "[whitespace_slide, blank_slide, hd sample_deck]"
  have ex: "(\<lambda>p::string. True) ''deck.pptx''"
    by simp
  have op: "(\<lambda>p::string. Inr ?prs :: exn + presentation) ''deck.pptx'' = Inr ?prs"
    by simp
  have b0: "bare_slide ?io ?its whitespace_slide"
    by code_simp
  have b1: "bare_slide ?io ?its blank_slide"
    by code_simp
  have b2: "\<not> bare_slide ?io ?its (hd sample_deck)"
    by code_simp
  have val: "slides_loop ?io ?its 0 ?prs [] = [(1, []), (2, []), (3, ''Revenue: $10M'')]"
    by code_simp
  note inst = corpus_one_entry_per_slide [OF ex op, of ?io ?its]
  from inst
  have ret: "snd (extract_content_from_pptx (\<lambda>p. True) (\<lambda>p. Inr ?prs) ?io ?its ''deck.pptx'')
               = Returns (slides_loop ?io ?its 0 ?prs [])"
    by blast
  from inst
  have "0 < length ?prs \<longrightarrow> bare_slide ?io ?its (?prs ! 0) \<longrightarrow>
          map_of (slides_loop ?io ?its 0 ?prs []) (Suc 0) = Some []"
    by blast
  with b0 have e0: "map_of (slides_loop ?io ?its 0 ?prs []) (Suc 0) = Some []"
    by simp
  from ret val b0 b1 b2 e0 show ?thesis
    by simp
qed

text \<open>
  C7. When decoding or recognition raises on the bytes of a picture, \<open>ocr_image\<close>
  returns the empty string, and the step of the loop for a picture with these bytes adds
  no image segment: it leaves \<open>texts\<close> as the text frame of the shape left it, so the
  loop goes on with the next shape.
\<close>

theorem ocr_image_absorbs:
  "ocr_raises io its b \<Longrightarrow>
   ocr_image io its b = []
   \<and> (\<forall>sh texts. shape_type sh = PICTURE \<and> image_blob sh = b \<longrightarrow>
          shape_step io its texts sh
            = (if text_segment sh then texts @ [shape_text sh] else texts))"
  by (auto simp: ocr_raises_def ocr_image_def shape_step_def text_segment_def strip_def
           split: sum.splits)

theorem ocr_image_absorbs_witness:
  "ocr_raises (\<lambda>b. if b = [] then Inl (OtherException ''cannot identify image file'') else Inr b)
     (\<lambda>img. Inr ''42'') []
   \<and> ocr_image (\<lambda>b. if b = [] then Inl (OtherException ''cannot identify image file'') else Inr b)
        (\<lambda>img. Inr ''42'') [] = []
   \<and> foldl (shape_step
               (\<lambda>b. if b = [] then Inl (OtherException ''cannot identify image file'') else Inr b)
               (\<lambda>img. Inr ''42'')) []
        [\<lparr>has_text_frame = False, shape_text = [], shape_type = PICTURE, image_blob = []\<rparr>,
         text_box ''after'']
       = [''after'']"
proof -
  let ?io = "\<lambda>b::bytes. if b = [] then Inl (OtherException ''cannot identify image file'')
                          else (Inr b :: exn + bytes)"
  let ?its = "\<lambda>img::bytes. (Inr ''42'' :: exn + string)"
  let ?pic = "\<lparr>has_text_frame = False, shape_text = [], shape_type = PICTURE, image_blob = []\<rparr>"
  have r: "ocr_raises ?io ?its []"
    by (simp add: ocr_raises_def)
  from ocr_image_absorbs [OF r]
  have e: "ocr_image ?io ?its [] = []"
    and s: "shape_step ?io ?its [] ?pic = (if text_segment ?pic then [] @ [shape_text ?pic] else [])"
    by simp_all
  have t: "shape_step ?io ?its [] (text_box ''after'') = [''after'']"
    by code_simp
  have "\<not> text_segment ?pic"
    by (simp add: text_segment_def)
  with s have "shape_step ?io ?its [] ?pic = []"
    by simp
  with r e t show ?thesis by simp
qed

text \<open>
  C10, as the code has it. For a shape that has a non-blank text frame and is a picture,
  the step appends the text of the frame first; the marked text of the image follows it
  when the recognised text is not blank, and nothing follows it otherwise.
\<close>

theorem text_and_picture_shape:
  "text_segment sh \<Longrightarrow> shape_type sh = PICTURE \<Longrightarrow>
   shape_step io its texts sh =
     texts @ [shape_text sh]
       @ (if strip (ocr_image io its (image_blob sh)) \<noteq> []
          then [''[Text from Image]:'' @ nl @ ocr_image io its (image_blob sh)] else [])"
  by (simp add: shape_step_def text_segment_def Let_def)

theorem text_and_picture_shape_witness:
  "text_segment \<lparr>has_text_frame = True, shape_text = ''Q3'', shape_type = PICTURE, image_blob = [7]\<rparr>
   \<and> shape_step (\<lambda>b. Inr b) (\<lambda>img. Inr ''42'') []
        \<lparr>has_text_frame = True, shape_text = ''Q3'', shape_type = PICTURE, image_blob = [7]\<rparr>
       = [''Q3'', ''[Text from Image]:'' @ nl @ ''42'']"
proof -
  let ?sh = "\<lparr>has_text_frame = True, shape_text = ''Q3'', shape_type = PICTURE, image_blob = [7]\<rparr>"
  have seg: "text_segment ?sh"
    by code_simp
  have pic: "shape_type ?sh = PICTURE"
    by simp
  have ocr: "ocr_image (\<lambda>b::bytes. Inr b :: exn + bytes) (\<lambda>img. Inr ''42'') [7] = ''42''"
    by (simp add: ocr_image_def)
  have ne: "strip ''42'' \<noteq> []"
    by code_simp
  from text_and_picture_shape [OF seg pic, of "\<lambda>b. Inr b" "\<lambda>img. Inr ''42''" "[]"] seg
  show ?thesis by (simp add: ocr ne)
qed

text \<open>
  The claim as stated fails when the recognised text is blank: the shape below has a
  non-blank text frame and is a picture, and the step appends one segment, not two.
\<close>

theorem text_and_picture_one_segment:
  "text_segment \<lparr>has_text_frame = True, shape_text = ''Q3'', shape_type = PICTURE, image_blob = [7]\<rparr>
   \<and> shape_step (\<lambda>b. Inr b) (\<lambda>img. Inr '' '') []
        \<lparr>has_text_frame = True, shape_text = ''Q3'', shape_type = PICTURE, image_blob = [7]\<rparr>
       = [''Q3'']"
  by code_simp

section \<open>Properties of the analysis client\<close>

lemma api_handler_cases:
  "api_handler e = (if \<exists>m. e = JSONDecodeError m then error_variant decode_error_msg
                    else error_variant (api_error_msg e))"
  by (cases e) simp_all

text \<open>
  C9. \<open>analyze_with_gemini\<close> always returns a value: no exception of the client library
  or of \<open>json.loads\<close> leaves it. It sends the one request, the prompt followed by the
  slides, when the configuration succeeds, and no request when the configuration raises.
  In every failure the value returned is the \<open>dict\<close> with the single key \<open>error\<close>: when
  the configuration raises, with the configuration message; when the request raises,
  reading the text of the response raises, or \<open>json.loads\<close> raises on the cleaned text,
  with the decoding message for a \<open>JSONDecodeError\<close> and with the message of the call
  for every other exception.
\<close>

theorem analysis_client_failures:
  "fst (snd (analyze_with_gemini cfgr gen loads content key))
     = (if cfgr key = None then [prompt @ full_text_prompt content] else [])
   \<and> length (fst (snd (analyze_with_gemini cfgr gen loads content key))) \<le> 1
   \<and> (\<forall>e. cfgr key = Some e \<longrightarrow>
          snd (snd (analyze_with_gemini cfgr gen loads content key))
            = JObj [(''error'', JStr (''Failed to configure Gemini API: '' @ exn_str e))])
   \<and> (\<forall>e. cfgr key = None
            \<and> (gen (prompt @ full_text_prompt content) = Inl e
               \<or> gen (prompt @ full_text_prompt content) = Inr (Inl e)
               \<or> (\<exists>t. gen (prompt @ full_text_prompt content) = Inr (Inr t)
                      \<and> loads (replace ''```'' [] (replace ''```json'' [] (strip t))) = Inl e)) \<longrightarrow>
          snd (snd (analyze_with_gemini cfgr gen loads content key))
            = JObj [(''error'',
                     JStr (if \<exists>m. e = JSONDecodeError m
                           then ''Failed to decode JSON from AI response. The model may have returned an invalid format.''
                           else ''An error occurred during the Gemini API call: '' @ exn_str e))])"
  by (auto simp: analyze_with_gemini_def send_request_def Let_def api_handler_cases
                 error_variant_def configure_error_msg_def decode_error_msg_def api_error_msg_def
           simp del: api_handler.simps split: option.splits sum.splits)

text \<open>
  Three failing calls: a key that the library refuses, a request that times out, and a
  response that is not JSON once the code fences are removed.
\<close>

theorem analysis_client_failures_witness:
  "analyze_with_gemini (\<lambda>k. Some (OtherException ''bad key''))
      (\<lambda>r. Inr (Inr sample_response)) sample_loads [(1, ''a'')] ''k''
     = ([nl @ ''Connecting to Google AI for analysis...''], [],
        JObj [(''error'', JStr ''Failed to configure Gemini API: bad key'')])
   \<and> analyze_with_gemini (\<lambda>k. None) (\<lambda>r. Inl (OtherException ''timeout''))
        sample_loads [(1, ''a'')] ''k''
     = ([nl @ ''Connecting to Google AI for analysis...''],
        [prompt @ full_text_prompt [(1, ''a'')]],
        JObj [(''error'', JStr ''An error occurred during the Gemini API call: timeout'')])
   \<and> full_text_prompt [(1, ''a'')] = ''--- Slide 1 ---'' @ nl @ ''a''
   \<and> sample_loads (replace ''```'' [] (replace ''```json'' [] (strip ''```json not json```'')))
     = Inl (JSONDecodeError ''Expecting value'')
   \<and> analyze_with_gemini (\<lambda>k. None) (\<lambda>r. Inr (Inr ''```json not json```''))
        sample_loads [(1, ''a'')] ''k''
     = ([nl @ ''Connecting to Google AI for analysis...''],
        [prompt @ full_text_prompt [(1, ''a'')]],
        JObj [(''error'',
               JStr ''Failed to decode JSON from AI response. The model may have returned an invalid format.'')])"
proof -
  have ftp: "full_text_prompt [(1, ''a'')] = ''--- Slide 1 ---'' @ nl @ ''a''"
    by code_simp
  have bad: "sample_loads (replace ''```'' [] (replace ''```json'' [] (strip ''```json not json```'')))
               = Inl (JSONDecodeError ''Expecting value'')"
    by code_simp
  have out: "fst (analyze_with_gemini cfgr gen loads content key)
               = [nl @ ''Connecting to Google AI for analysis...'']"
    for cfgr gen loads content key
    by (simp add: analyze_with_gemini_def send_request_def Let_def
             split: option.splits sum.splits)
  from analysis_client_failures
         [of "\<lambda>k. Some (OtherException ''bad key'')" "\<lambda>r. Inr (Inr sample_response)"
             sample_loads "[(1, ''a'')]" "''k''"]
  have a: "snd (analyze_with_gemini (\<lambda>k. Some (OtherException ''bad key''))
                  (\<lambda>r. Inr (Inr sample_response)) sample_loads [(1, ''a'')] ''k'')
             = ([], JObj [(''error'', JStr ''Failed to configure Gemini API: bad key'')])"
    by (simp add: prod_eq_iff del: One_nat_def)
  from analysis_client_failures
         [of "\<lambda>k. None" "\<lambda>r. Inl (OtherException ''timeout'')" sample_loads "[(1, ''a'')]" "''k''"]
  have b: "snd (analyze_with_gemini (\<lambda>k. None) (\<lambda>r. Inl (OtherException ''timeout''))
                  sample_loads [(1, ''a'')] ''k'')
             = ([prompt @ full_text_prompt [(1, ''a'')]],
                JObj [(''error'', JStr ''An error occurred during the Gemini API call: timeout'')])"
    by (simp add: prod_eq_iff del: One_nat_def)
  from analysis_client_failures
         [of "\<lambda>k. None" "\<lambda>r. Inr (Inr ''```json not json```'')" sample_loads "[(1, ''a'')]" "''k''"]
       bad
  have c: "snd (analyze_with_gemini (\<lambda>k. None) (\<lambda>r. Inr (Inr ''```json not json```''))
                  sample_loads [(1, ''a'')] ''k'')
             = ([prompt @ full_text_prompt [(1, ''a'')]],
                JObj [(''error'',
                       JStr ''Failed to decode JSON from AI response. The model may have returned an invalid format.'')])"
    by (simp add: prod_eq_iff del: One_nat_def)
  from a b c bad ftp out show ?thesis
    by (simp add: prod_eq_iff del: One_nat_def)
qed

section \<open>Properties of the cache and of the orchestrator\<close>

lemma py_in_not_error: "py_in ''error'' v = Inr False \<Longrightarrow> \<not> is_error_variant v"
  by (cases v) (auto simp: is_error_variant_def)

lemma main_report_cache: "cache (main_report E a res r) = cache r"
  by (simp add: main_report_def split: option.splits list.splits sum.splits prod.splits)

lemma main_report_requests: "requests (main_report E a res r) = requests r"
  by (simp add: main_report_def split: option.splits list.splits sum.splits prod.splits)

text \<open>The one write of \<open>main_analysis\<close>: under \<open>use_caching\<close>, of a result without the key \<open>error\<close>.\<close>

lemma main_analysis_cache_explicit:
  "cache (main_analysis E a uc key fp cp r) = cache r
   \<or> (\<exists>v. cache (main_analysis E a uc key fp cp r) = (cache r)(cp \<mapsto> json_dumps E v)
          \<and> uc \<and> \<not> is_error_variant v
          \<and> v = snd (snd (analyze_with_gemini (configure E) (generate_content E) (json_loads E)
                 (slides_loop (Image_open E) (image_to_string E) 0
                    (projr (Presentation E fp)) []) key)))"
  by (auto simp: main_analysis_def extract_content_from_pptx_def main_report_cache
                 write_to_cache_def Let_def
           dest: py_in_not_error
           split: sum.splits prod.splits ending.splits if_splits option.splits bool.splits)

lemma main_analysis_cache:
  "cache (main_analysis E a uc key fp cp r) = cache r
   \<or> (\<exists>v content. cache (main_analysis E a uc key fp cp r) = (cache r)(cp \<mapsto> json_dumps E v)
          \<and> uc \<and> \<not> is_error_variant v
          \<and> v = snd (snd (analyze_with_gemini (configure E) (generate_content E) (json_loads E)
                 content key)))"
  using main_analysis_cache_explicit [of E a uc key fp cp r] by blast

text \<open>A run leaves the cache alone, or it is the analysis block on a fresh run.\<close>

lemma main_cases:
  "(cache (main E cfg a fs) = fs \<and> requests (main E cfg a fs) = [])
   \<or> (\<exists>key fp cp out. main E cfg a fs =
          main_analysis E a (\<not> arg_no_cache a \<and> cfg_caching cfg) key fp cp
            \<lparr>stdout = out, cache = fs, requests = [], report_file = None, ending = Returns ()\<rparr>)"
proof (cases "\<not> arg_no_cache a \<and> cfg_caching cfg")
  case True
  then show ?thesis
    by (auto simp: main_def Let_def main_report_cache main_report_requests
             split: option.split list.split prod.split)
next
  case False
  then show ?thesis
    by (auto simp: main_def Let_def main_report_cache main_report_requests
             split: option.split list.split prod.split)
qed

lemma main_cache:
  "cache (main E cfg a fs) = fs
   \<or> (\<exists>cp v content key. cache (main E cfg a fs) = fs(cp \<mapsto> json_dumps E v)
          \<and> \<not> arg_no_cache a \<and> cfg_caching cfg
          \<and> v = snd (snd (analyze_with_gemini (configure E) (generate_content E) (json_loads E)
                 content key))
          \<and> \<not> is_error_variant v)"
proof -
  consider (quiet) "cache (main E cfg a fs) = fs"
    | (analysis) key fp cp out where "main E cfg a fs =
          main_analysis E a (\<not> arg_no_cache a \<and> cfg_caching cfg) key fp cp
            \<lparr>stdout = out, cache = fs, requests = [], report_file = None, ending = Returns ()\<rparr>"
    using main_cases [of E cfg a fs] by blast
  then show ?thesis
  proof cases
    case quiet
    then show ?thesis by simp
  next
    case analysis
    show ?thesis
      using main_analysis_cache [of E a "\<not> arg_no_cache a \<and> cfg_caching cfg" key fp cp
              "\<lparr>stdout = out, cache = fs, requests = [], report_file = None, ending = Returns ()\<rparr>"]
      unfolding analysis by auto
  qed
qed

text \<open>
  C3. A run changes the cache by at most one write, and it writes only when caching is
  enabled and the result of the analysis is not the error variant. So, if every entry
  of the cache holds a result that is not the error variant before the run, the same is
  true after it.
\<close>

theorem cache_only_successful:
  "(cache (main E cfg a fs) = fs
     \<or> (\<exists>cp v content key. cache (main E cfg a fs) = fs(cp \<mapsto> json_dumps E v)
          \<and> \<not> arg_no_cache a \<and> cfg_caching cfg
          \<and> v = snd (snd (analyze_with_gemini (configure E) (generate_content E) (json_loads E)
                 content key))
          \<and> \<not> is_error_variant v))
   \<and> ((\<forall>p c. fs p = Some c \<longrightarrow> (\<exists>v. c = json_dumps E v \<and> \<not> is_error_variant v))
        \<longrightarrow> (\<forall>p c. cache (main E cfg a fs) p = Some c
               \<longrightarrow> (\<exists>v. c = json_dumps E v \<and> \<not> is_error_variant v)))"
proof (intro conjI impI allI)
  show "cache (main E cfg a fs) = fs
     \<or> (\<exists>cp v content key. cache (main E cfg a fs) = fs(cp \<mapsto> json_dumps E v)
          \<and> \<not> arg_no_cache a \<and> cfg_caching cfg
          \<and> v = snd (snd (analyze_with_gemini (configure E) (generate_content E) (json_loads E)
                 content key))
          \<and> \<not> is_error_variant v)"
    by (rule main_cache)
next
  fix p c
  assume inv: "\<forall>p c. fs p = Some c \<longrightarrow> (\<exists>v. c = json_dumps E v \<and> \<not> is_error_variant v)"
    and entry: "cache (main E cfg a fs) p = Some c"
  from main_cache [of E cfg a fs]
  show "\<exists>v. c = json_dumps E v \<and> \<not> is_error_variant v"
  proof
    assume "cache (main E cfg a fs) = fs"
    with inv entry show ?thesis by simp
  next
    assume "\<exists>cp v content key. cache (main E cfg a fs) = fs(cp \<mapsto> json_dumps E v)
          \<and> \<not> arg_no_cache a \<and> cfg_caching cfg
          \<and> v = snd (snd (analyze_with_gemini (configure E) (generate_content E) (json_loads E)
                 content key))
          \<and> \<not> is_error_variant v"
    then obtain cp v where w: "cache (main E cfg a fs) = fs(cp \<mapsto> json_dumps E v)"
      and ok: "\<not> is_error_variant v" by blast
    show ?thesis
    proof (cases "p = cp")
      case True
      with w entry ok show ?thesis by auto
    next
      case False
      with w entry have "fs p = Some c" by simp
      with inv show ?thesis by blast
    qed
  qed
qed

text \<open>
  The run of the scenario on a cache that holds one earlier entry: it writes the result
  under the key of the deck, and the entry it leaves there holds a result that is not the
  error variant.
\<close>

theorem cache_only_successful_witness:
  "cache (main sample_env sample_config sample_args [''.cache/old.pptx_00.json'' \<mapsto> ''null''])
       ''.cache/deck.pptx_10893fd7cff66dca193f658ca9438d15.json'' = Some sample_cache_text
   \<and> (\<exists>v. sample_cache_text = json_dumps sample_env v \<and> \<not> is_error_variant v)"
proof -
  let ?fs = "[''.cache/old.pptx_00.json'' \<mapsto> ''null'']"
  have entry: "cache (main sample_env sample_config sample_args ?fs)
                 ''.cache/deck.pptx_10893fd7cff66dca193f658ca9438d15.json'' = Some sample_cache_text"
    by code_simp
  have old: "''null'' = json_dumps sample_env JNull \<and> \<not> is_error_variant JNull"
    by code_simp
  have inv: "\<forall>p c. ?fs p = Some c \<longrightarrow> (\<exists>v. c = json_dumps sample_env v \<and> \<not> is_error_variant v)"
    using old by (auto split: if_splits)
  from cache_only_successful [of sample_env sample_config sample_args ?fs] inv entry
  have "\<exists>v. sample_cache_text = json_dumps sample_env v \<and> \<not> is_error_variant v"
    by blast
  with entry show ?thesis by blast
qed



text \<open>The report block only adds to what has been printed.\<close>

lemma main_report_prefix:
  "prefix xs (stdout r) \<Longrightarrow> prefix xs (stdout (main_report E a res r))"
  by (auto simp: main_report_def split: option.splits list.splits sum.splits prod.splits)

lemma analyze_with_gemini_out:
  "fst (analyze_with_gemini cfgr gen loads content key)
     = [nl @ ''Connecting to Google AI for analysis...'']"
  by (simp add: analyze_with_gemini_def send_request_def Let_def
           split: option.splits sum.splits)

lemma analyze_with_gemini_sent:
  "fst (snd (analyze_with_gemini cfgr gen loads content key))
     = (if cfgr key = None then [prompt @ full_text_prompt content] else [])"
  by (simp add: analyze_with_gemini_def send_request_def Let_def
           split: option.splits sum.splits)

text \<open>
  With a dictionary that has an entry, the analysis block calls the client: the first
  line after the extraction is the one that the client prints, and the requests of the
  client are sent.
\<close>

lemma main_analysis_calls_client:
  assumes "path_exists E fp" and "Presentation E fp = Inr prs" and "prs \<noteq> []"
  shows "requests (main_analysis E a uc key fp cp r)
           = requests r
             @ (if configure E key = None
                then [prompt @ full_text_prompt
                                 (slides_loop (Image_open E) (image_to_string E) 0 prs [])]
                else [])"
    and "prefix (stdout r @ [''Extracting content from presentation...'',
                             nl @ ''Connecting to Google AI for analysis...''])
           (stdout (main_analysis E a uc key fp cp r))"
proof -
  define content where "content = slides_loop (Image_open E) (image_to_string E) 0 prs []"
  define res where
    "res = analyze_with_gemini (configure E) (generate_content E) (json_loads E) content key"
  define line1 where "line1 = ''Extracting content from presentation...''"
  define line2 where "line2 = nl @ ''Connecting to Google AI for analysis...''"
  have ne: "content \<noteq> []"
    using assms(3) slides_loop_length [of "Image_open E" "image_to_string E" prs]
    by (auto simp: content_def)
  have ext: "extract_content_from_pptx (path_exists E) (Presentation E) (Image_open E)
               (image_to_string E) fp
             = ([line1], Returns content)"
    using assms(1,2) by (simp add: extract_content_from_pptx_def content_def line1_def)
  obtain out2 reqs v where res: "res = (out2, reqs, v)"
    by (cases res) auto
  have out2: "out2 = [line2]"
    using analyze_with_gemini_out [of "configure E" "generate_content E" "json_loads E" content key]
    by (simp add: res_def [symmetric] res line2_def)
  have reqs: "reqs = (if configure E key = None then [prompt @ full_text_prompt content] else [])"
    using analyze_with_gemini_sent [of "configure E" "generate_content E" "json_loads E" content key]
    by (simp add: res_def [symmetric] res)
  show "requests (main_analysis E a uc key fp cp r)
           = requests r
             @ (if configure E key = None
                then [prompt @ full_text_prompt
                                 (slides_loop (Image_open E) (image_to_string E) 0 prs [])]
                else [])"
    using ne
    by (simp add: main_analysis_def ext res_def [symmetric] res Let_def main_report_requests
                  reqs content_def [symmetric]
             split: sum.splits bool.splits)
  have "prefix (stdout r @ [line1, line2]) (stdout (main_analysis E a uc key fp cp r))"
    using ne
    by (auto simp: main_analysis_def ext res_def [symmetric] res Let_def out2
             intro!: main_report_prefix
             split: sum.splits bool.splits)
  then show "prefix (stdout r @ [''Extracting content from presentation...'',
                             nl @ ''Connecting to Google AI for analysis...''])
           (stdout (main_analysis E a uc key fp cp r))"
    by (simp add: line1_def line2_def)
qed

text \<open>The dictionary of a deck of bare slides: one entry per slide, each the empty string.\<close>

lemma bare_deck_corpus:
  "list_all (bare_slide io its) prs \<Longrightarrow>
   slides_loop io its 0 prs [] = map (\<lambda>n. (n, [])) [1 ..< Suc (length prs)]"
proof -
  assume bare: "list_all (bare_slide io its) prs"
  have eq: "map (slide_block io its) prs = map (\<lambda>sl. []) prs"
    using bare by (induction prs) (simp_all add: slide_block_empty_iff)
  have "slides_loop io its 0 prs [] = zip [1 ..< Suc (length prs)] (map (\<lambda>sl. []) prs)"
    by (simp only: slides_loop_zip eq)
  also have "\<dots> = map (\<lambda>n. (n, [])) [1 ..< Suc (length prs)]"
    by (rule nth_equalityI) (simp_all del: upt_Suc)
  finally show ?thesis .
qed

text \<open>
  C2 fails on the code. Take a run that reaches the extraction (the file and the key are
  given, and the lookup of the cache neither ends the run nor yields a result) on a
  document that opens and has at least one slide, all of its slides bare. The dictionary
  built is entirely empty: every entry is the empty string. Yet the test \<open>not content\<close>
  is false of it, because it has entries: the run prints no message that no content
  could be extracted after the extraction, it calls the analysis client, whose first line
  is the next one printed, and, unless the configuration of the client raises, it sends
  the request to the service.
\<close>

theorem blank_deck_is_analysed:
  assumes "py_or (arg_file a) (cfg_default_file cfg) = Some fp" and "fp \<noteq> []"
    and "cfg_api_key cfg = Some key" and "key \<noteq> []" and "key \<noteq> ''YOUR_API_KEY_HERE''"
    and "(if \<not> arg_no_cache a \<and> cfg_caching cfg then main_lookup E fs fp
          else ([], [], JNull, False)) = (out, cp, JNull, False)"
    and "path_exists E fp" and "Presentation E fp = Inr prs" and "prs \<noteq> []"
    and "list_all (bare_slide (Image_open E) (image_to_string E)) prs"
  shows "snd (extract_content_from_pptx (path_exists E) (Presentation E) (Image_open E)
                (image_to_string E) fp)
           = Returns (map (\<lambda>n. (n, [])) [1 ..< Suc (length prs)])
         \<and> (\<exists>later. stdout (main E cfg a fs)
               = out @ [''Extracting content from presentation...'',
                        nl @ ''Connecting to Google AI for analysis...''] @ later)
         \<and> requests (main E cfg a fs)
             = (if configure E key = None
                then [prompt @ full_text_prompt (map (\<lambda>n. (n, [])) [1 ..< Suc (length prs)])]
                else [])"
proof -
  obtain c cs where fp: "fp = c # cs"
    using assms(2) by (cases fp) auto
  obtain k ks where key: "key = k # ks"
    using assms(4) by (cases key) auto
  let ?r0 = "\<lparr>stdout = out, cache = fs, requests = [], report_file = None, ending = Returns ()\<rparr>"
  have nk: "key \<noteq> placeholder_key"
    using assms(5) unfolding placeholder_key_def .
  have run: "main E cfg a fs =
          main_analysis E a (\<not> arg_no_cache a \<and> cfg_caching cfg) key fp cp ?r0"
    using assms(1,3,6) nk unfolding fp key main_def Let_def by simp
  note corpus = bare_deck_corpus [OF assms(10)]
  have "snd (extract_content_from_pptx (path_exists E) (Presentation E) (Image_open E)
                (image_to_string E) fp)
           = Returns (map (\<lambda>n. (n, [])) [1 ..< Suc (length prs)])"
    using assms(7,8) by (simp add: extract_content_from_pptx_def corpus)
  moreover have "\<exists>later. stdout (main E cfg a fs)
               = out @ [''Extracting content from presentation...'',
                        nl @ ''Connecting to Google AI for analysis...''] @ later"
    using main_analysis_calls_client(2) [OF assms(7,8,9), of ?r0 a _ key cp]
    unfolding run prefix_def by simp
  moreover have "requests (main E cfg a fs)
             = (if configure E key = None
                then [prompt @ full_text_prompt (map (\<lambda>n. (n, [])) [1 ..< Suc (length prs)])]
                else [])"
    using main_analysis_calls_client(1) [OF assms(7,8,9), of a _ key cp ?r0]
    unfolding run corpus by simp
  ultimately show ?thesis by blast
qed

text \<open>
  The failing run: the scenario with a deck of one slide that has no shape and no notes.
  The dictionary is \<open>{1: ""}\<close>; the run sends the request, which ends with the heading
  of the one slide, and the message that no content could be extracted is not printed.
\<close>

theorem blank_deck_is_analysed_witness:
  "bare_slide (Image_open sample_env) (image_to_string sample_env) blank_slide
   \<and> snd (extract_content_from_pptx (\<lambda>p. True) (\<lambda>p. Inr [blank_slide]) (Image_open sample_env)
            (image_to_string sample_env) ''deck.pptx'') = Returns [(1, [])]
   \<and> requests (main (sample_env\<lparr>Presentation := \<lambda>p. Inr [blank_slide]\<rparr>) sample_config
         sample_args Map.empty) = [prompt @ ''--- Slide 1 ---'' @ nl]
   \<and> no_content_msg \<notin> set (stdout (main (sample_env\<lparr>Presentation := \<lambda>p. Inr [blank_slide]\<rparr>)
         sample_config sample_args Map.empty))"
proof -
  let ?E = "sample_env\<lparr>Presentation := \<lambda>p. Inr [blank_slide]\<rparr>"
  have f: "py_or (arg_file sample_args) (cfg_default_file sample_config) = Some ''deck.pptx''"
    by (simp add: py_or_def sample_args_def sample_config_def)
  have k: "cfg_api_key sample_config = Some ''k''"
    by (simp add: sample_config_def)
  have l: "(if \<not> arg_no_cache sample_args \<and> cfg_caching sample_config
            then main_lookup ?E Map.empty ''deck.pptx'' else ([], [], JNull, False))
           = ([], cache_key ''deck.pptx'' ''10893fd7cff66dca193f658ca9438d15'', JNull, False)"
    by (simp add: sample_args_def sample_config_def main_lookup_def get_file_hash_def
                  sample_env_def)
  have e: "path_exists ?E ''deck.pptx''"
    by (simp add: sample_env_def)
  have p: "Presentation ?E ''deck.pptx'' = Inr [blank_slide]"
    by simp
  have b: "list_all (bare_slide (Image_open ?E) (image_to_string ?E)) [blank_slide]"
    by code_simp
  have b': "bare_slide (Image_open sample_env) (image_to_string sample_env) blank_slide"
    by code_simp
  have c: "configure ?E ''k'' = None"
    by (simp add: sample_env_def)
  have ftp: "full_text_prompt [(Suc 0, [])] = ''--- Slide 1 ---'' @ nl"
    by code_simp
  have env: "path_exists ?E = (\<lambda>p. True)" "Presentation ?E = (\<lambda>p. Inr [blank_slide])"
    "Image_open ?E = Image_open sample_env" "image_to_string ?E = image_to_string sample_env"
    by (simp_all add: sample_env_def)
  have quiet: "no_content_msg \<notin> set (stdout (main ?E sample_config sample_args Map.empty))"
    by code_simp
  from blank_deck_is_analysed [OF f _ k _ _ l e p _ b]
  have "snd (extract_content_from_pptx (path_exists ?E) (Presentation ?E) (Image_open ?E)
                (image_to_string ?E) ''deck.pptx'') = Returns [(Suc 0, [])]
        \<and> requests (main ?E sample_config sample_args Map.empty)
            = [prompt @ full_text_prompt [(Suc 0, [])]]"
    using c by simp
  with b' quiet show ?thesis
    unfolding env ftp by simp
qed

section \<open>The key of the cache\<close>

text \<open>
  The key is a function of the base name and of the digest, and for one file two digests
  give the same key only when they are equal. Whether two contents have the same digest
  is a matter of \<open>md5_hexdigest\<close>, which is a parameter here.
\<close>

lemma basename_no_slash: "CHR ''/'' \<notin> set (basename p)"
proof -
  have "CHR ''/'' \<notin> set (takeWhile (\<lambda>c. c \<noteq> CHR ''/'') (rev p))"
    by (auto dest: set_takeWhileD)
  then show ?thesis by (simp add: basename_def)
qed

lemma cache_key_path:
  "cache_key fp h = CACHE_DIR @ ''/'' @ basename fp @ ''_'' @ h @ ''.json''"
proof -
  have "hd (basename fp @ ''_'' @ h @ ''.json'') \<noteq> CHR ''/''"
    using basename_no_slash [of fp] by (cases "basename fp") auto
  then show ?thesis
    by (simp add: cache_key_def path_join_def CACHE_DIR_def)
qed

lemma cache_key_digest: "cache_key fp h = cache_key fp h' \<longleftrightarrow> h = h'"
  by (simp add: cache_key_path)

section \<open>Properties of the report\<close>



lemma py_iter_iff: "(\<exists>xs. py_iter v = Inr xs) \<longleftrightarrow> iterable v"
  by (cases v) auto

lemma py_iter_entries: "py_iter v = Inr xs \<Longrightarrow> xs = entries v \<and> iterable v"
  by (cases v) auto


lemma py_get_cases:
  "py_get v k dflt = (case v of JObj kvs \<Rightarrow> Inr (case map_of kvs k of Some w \<Rightarrow> w | None \<Rightarrow> dflt)
                      | _ \<Rightarrow> Inl (AttributeError ''object has no attribute get''))"
  by (cases v) auto
















lemma str_nat_one: "str_nat (Suc 0) = ''1''" "str_nat 1 = ''1''"
  by code_simp+

text \<open>
  C8 at the result \<open>empty_conflict_result\<close>, one issue whose \<open>conflict\<close> is the empty
  string. For a wrapper that returns no line for the empty text, as \<open>textwrap.wrap\<close>
  does, the plain renderer lists the issue with its three fields, and the decorated
  renderer prints the type of the issue and then raises \<open>IndexError\<close>: it shows neither the conflict
  nor the evidence.
\<close>

theorem empty_conflict_diverges:
  "wrapper [] 79 = [] \<Longrightarrow>
   generate_plain_text_report to_str empty_conflict_result
     = Inr (join nl [''AI Inconsistency Analysis Report: Found 1 Issues'' @ nl @ str_mul ''='' 80,
                     nl @ ''--- ISSUE #1 ---'' @ nl,
                     ''TYPE: Numerical Inconsistency'',
                     ''CONFLICT: '',
                     ''EVIDENCE:'',
                     ''  - Slide 1: $10M''])
   \<and> snd (generate_report wrapper to_str empty_conflict_result)
     = Some (IndexError ''list index out of range'')
   \<and> length (fst (generate_report wrapper to_str empty_conflict_result)) = 6"
  by (simp add: generate_plain_text_report_def generate_report_def empty_conflict_result_def
                fmt_def wrap_value_def BOX_WIDTH_def str_nat_one Let_def)

theorem empty_conflict_diverges_witness:
  "greedy_wrap [] 79 = []
   \<and> snd (generate_report greedy_wrap simple_str empty_conflict_result)
     = Some (IndexError ''list index out of range'')"
proof -
  have w: "greedy_wrap [] 79 = []"
    by code_simp
  from empty_conflict_diverges [of greedy_wrap simple_str, OF w] w show ?thesis by blast
qed

end
